theory Spec2Isabelle
  imports Complex_Main "HOL-Library.Char_ord" "HOL-Library.List_Lexorder" "HOL-Library.Multiset"
begin

section \<open>Benchmark analysis tool: data model\<close>

text \<open>
  The program is \<^verbatim>\<open>analyze_benchmarks.py\<close>. A benchmark record is the dictionary that
  \<^verbatim>\<open>json.load\<close> yields for one run; the program reads nine keys of it. The numeric
  fields are Python integers (unbounded), the timestamp is a string.

  Python's \<^verbatim>\<open>/\<close> always yields a float. A float is represented here by the real
  number it stands for: rounding to binary64 and the range of binary64 (and with it
  \<^verbatim>\<open>OverflowError\<close>) are outside this model. Every other exception the arithmetic
  can raise (\<^verbatim>\<open>ZeroDivisionError\<close>, the \<^verbatim>\<open>ValueError\<close> of \<^verbatim>\<open>math.log\<close>) is a
  branch of the model.
\<close>

record benchmark_record =
  participant_count :: int
  user_cycles :: int
  total_cycles :: int
  session_segments :: int
  proving_time_ms :: int
  total_time_ms :: int
  receipt_size_bytes :: int
  journal_size_bytes :: int
  timestamp :: string

datatype error = ZeroDivisionError | ValueError | JSONDecodeError

text \<open>\<^verbatim>\<open>a / b\<close> on numbers: raises on a zero divisor.\<close>

definition truediv :: "real \<Rightarrow> real \<Rightarrow> error + real" where
  "truediv a b = (if b = 0 then Inl ZeroDivisionError else Inr (a / b))"

text \<open>\<^verbatim>\<open>math.log(x)\<close>: a domain error unless \<open>x\<close> is positive.\<close>

definition math_log :: "real \<Rightarrow> error + real" where
  "math_log x = (if x \<le> 0 then Inl ValueError else Inr (ln x))"

text \<open>
  \<^verbatim>\<open>sorted(data, key=lambda x: x['participant_count'])\<close>. Python's sort is stable, and so
  is \<^const>\<open>sort_key\<close>; a stable sort has one possible result.
\<close>

definition sorted_by_participants :: "benchmark_record list \<Rightarrow> benchmark_record list" where
  "sorted_by_participants data = sort_key participant_count data"

text \<open>
  \<^verbatim>\<open>min(data, key=f)\<close> and \<^verbatim>\<open>max(data, key=f)\<close> on a non-empty list: the first element
  that attains the extreme key (a later element replaces the current one only when its key
  is strictly smaller, strictly larger).
\<close>

definition min_by :: "('a \<Rightarrow> int) \<Rightarrow> 'a \<Rightarrow> 'a list \<Rightarrow> 'a" where
  "min_by f x xs = foldl (\<lambda>m y. if f y < f m then y else m) x xs"

definition max_by :: "('a \<Rightarrow> int) \<Rightarrow> 'a \<Rightarrow> 'a list \<Rightarrow> 'a" where
  "max_by f x xs = foldl (\<lambda>m y. if f y > f m then y else m) x xs"

text \<open>
  \<^verbatim>\<open>sum(g(d) for d in data)\<close>: the generator is consumed from the left, and the first
  element whose term raises ends the sum with that exception.
\<close>

fun sum_gen :: "('a \<Rightarrow> error + real) \<Rightarrow> real \<Rightarrow> 'a list \<Rightarrow> error + real" where
  "sum_gen g acc [] = Inr acc"
| "sum_gen g acc (d # ds) =
     (case g d of Inl e \<Rightarrow> Inl e | Inr v \<Rightarrow> sum_gen g (acc + v) ds)"

section \<open>String formatting\<close>

text \<open>
  Strings are byte strings: what the program writes to standard output in UTF-8.
\<close>

definition digit :: "nat \<Rightarrow> char" where
  "digit n = ''0123456789'' ! n"

fun str_nat :: "nat \<Rightarrow> string" where
  "str_nat n = (if n < 10 then [digit n] else str_nat (n div 10) @ [digit (n mod 10)])"

declare str_nat.simps [simp del]

text \<open>\<^verbatim>\<open>str(i)\<close>, and \<^verbatim>\<open>{i}\<close> in an f-string, for an integer.\<close>

definition str_int :: "int \<Rightarrow> string" where
  "str_int i = (if i < 0 then ''-'' @ str_nat (nat (- i)) else str_nat (nat i))"

text \<open>The digits of \<open>n\<close>, padded with zeros on the left to width \<open>w\<close>.\<close>

definition zero_pad :: "nat \<Rightarrow> nat \<Rightarrow> string" where
  "zero_pad w n = replicate (w - length (str_nat n)) (CHR ''0'') @ str_nat n"

text \<open>The \<^verbatim>\<open>,\<close> option: groups of three digits from the right.\<close>

fun commas_nat :: "nat \<Rightarrow> string" where
  "commas_nat n =
     (if n < 1000 then str_nat n else commas_nat (n div 1000) @ '','' @ zero_pad 3 (n mod 1000))"

declare commas_nat.simps [simp del]

text \<open>\<^verbatim>\<open>{i:,}\<close> for an integer.\<close>

definition commas_int :: "int \<Rightarrow> string" where
  "commas_int i = (if i < 0 then ''-'' @ commas_nat (nat (- i)) else commas_nat (nat i))"

text \<open>\<^verbatim>\<open>{s:>w}\<close>: right-aligned in a field of width \<open>w\<close>, never truncated.\<close>

definition rjust :: "nat \<Rightarrow> string \<Rightarrow> string" where
  "rjust w s = replicate (w - length s) (CHR '' '') @ s"

text \<open>Rounding to the nearest integer, ties to even, as float formatting does.\<close>

definition round_half_even :: "real \<Rightarrow> int" where
  "round_half_even x =
     (let f = \<lfloor>x\<rfloor>; d = x - of_int f
      in if d < 1 / 2 then f else if d > 1 / 2 then f + 1 else if even f then f else f + 1)"

text \<open>
  \<^verbatim>\<open>{x:.kf}\<close> and \<^verbatim>\<open>{x:,.kf}\<close> for a float: the sign of \<open>x\<close>, the integer part (with
  separators when \<open>grouped\<close>), and \<open>k\<close> decimals when \<open>k > 0\<close>.
\<close>

definition format_fixed :: "bool \<Rightarrow> nat \<Rightarrow> real \<Rightarrow> string" where
  "format_fixed grouped k x =
     (let scaled = nat (round_half_even (\<bar>x\<bar> * 10 ^ k));
          whole = scaled div 10 ^ k;
          frac = scaled mod 10 ^ k
      in (if x < 0 then ''-'' else '''')
         @ (if grouped then commas_nat whole else str_nat whole)
         @ (if k = 0 then '''' else ''.'' @ zero_pad k frac))"

section \<open>CSV exporter\<close>

text \<open>
  \<^verbatim>\<open>csv.writer\<close> receives each row as a list of Python values and serialises it; the
  file is modelled as the list of rows handed to \<^verbatim>\<open>writerow\<close>, each cell keeping its
  Python type.
\<close>

datatype cell = CInt int | CFloat real | CStr string

definition csv_header :: "cell list" where
  "csv_header = map CStr
     [''N'', ''User Cycles'', ''Total Cycles'', ''Segments'', ''Proving Time (ms)'',
      ''Total Time (ms)'', ''Receipt Size (bytes)'', ''Journal Size (bytes)'',
      ''User Cycles/Participant'', ''Total Cycles/Participant'', ''Overhead %'',
      ''Time/Participant (ms)'', ''Timestamp'']"

text \<open>
  Line 134: \<^verbatim>\<open>(total - user) / user * 100 if user > 0 else 0\<close>. The guarded branch
  is the integer \<^verbatim>\<open>0\<close>.
\<close>

definition csv_overhead :: "benchmark_record \<Rightarrow> error + cell" where
  "csv_overhead item =
     (if user_cycles item > 0
      then (case truediv (of_int (total_cycles item - user_cycles item)) (of_int (user_cycles item)) of
              Inl e \<Rightarrow> Inl e
            | Inr q \<Rightarrow> Inr (CFloat (q * 100)))
      else Inr (CInt 0))"

text \<open>The row list of lines 135 to 149; its elements are evaluated from the left.\<close>

definition csv_row :: "benchmark_record \<Rightarrow> error + cell list" where
  "csv_row item =
     (case csv_overhead item of
        Inl e \<Rightarrow> Inl e
      | Inr overhead \<Rightarrow>
     (case truediv (of_int (user_cycles item)) (of_int (participant_count item)) of
        Inl e \<Rightarrow> Inl e
      | Inr ucp \<Rightarrow>
     (case truediv (of_int (total_cycles item)) (of_int (participant_count item)) of
        Inl e \<Rightarrow> Inl e
      | Inr tcp \<Rightarrow>
     (case truediv (of_int (total_time_ms item)) (of_int (participant_count item)) of
        Inl e \<Rightarrow> Inl e
      | Inr tp \<Rightarrow>
          Inr [CInt (participant_count item), CInt (user_cycles item), CInt (total_cycles item),
               CInt (session_segments item), CInt (proving_time_ms item),
               CInt (total_time_ms item), CInt (receipt_size_bytes item),
               CInt (journal_size_bytes item), CFloat ucp, CFloat tcp, overhead, CFloat tp,
               CStr (timestamp item)]))))"

text \<open>
  The loop of line 133 over the rows already written: a row that raises is not written,
  and the rows before it stay in the file.
\<close>

fun write_rows :: "cell list list \<Rightarrow> benchmark_record list \<Rightarrow> cell list list \<times> error option" where
  "write_rows written [] = (written, None)"
| "write_rows written (item # items) =
     (case csv_row item of
        Inl e \<Rightarrow> (written, Some e)
      | Inr row \<Rightarrow> write_rows (written @ [row]) items)"

record csv_result =
  csv_file :: "cell list list"
  csv_stdout :: "string list"
  csv_error :: "error option"

text \<open>The check mark U+2713 and the arrow U+2192, in UTF-8.\<close>

definition check_mark :: string where
  "check_mark = [CHR 0xE2, CHR 0x9C, CHR 0x93]"

definition arrow :: string where
  "arrow = [CHR 0xE2, CHR 0x86, CHR 0x92]"

definition generate_csv_report :: "benchmark_record list \<Rightarrow> string \<Rightarrow> csv_result" where
  "generate_csv_report data output_file =
     (case write_rows [csv_header] (sorted_by_participants data) of
        (rows, Some e) \<Rightarrow> \<lparr>csv_file = rows, csv_stdout = [], csv_error = Some e\<rparr>
      | (rows, None) \<Rightarrow>
          \<lparr>csv_file = rows,
           csv_stdout = [check_mark @ '' Detailed CSV report saved to: '' @ output_file],
           csv_error = None\<rparr>)"

section \<open>Reporter\<close>

text \<open>
  Standard output is the list of the texts of the \<^verbatim>\<open>print\<close> calls, in order; a text
  may hold a line feed of its own.
\<close>

definition newline :: string where
  "newline = [CHR 0x0A]"

definition rule_line :: "char \<Rightarrow> nat \<Rightarrow> string" where
  "rule_line c n = replicate n c"

text \<open>Line 55, the column titles.\<close>

definition table_header :: string where
  "table_header =
     rjust 4 ''N'' @ '' | '' @ rjust 12 ''User Cycles'' @ '' | '' @ rjust 13 ''Total Cycles''
     @ '' | '' @ rjust 8 ''Segments'' @ '' | '' @ rjust 12 ''Proving (ms)'' @ '' | ''
     @ rjust 10 ''Total (ms)'' @ '' | '' @ rjust 12 ''Receipt (KB)'' @ '' | ''
     @ rjust 12 ''Journal (KB)''"

text \<open>Lines 59 to 68, one table row. The divisor 1024 is a literal.\<close>

definition table_row :: "benchmark_record \<Rightarrow> string" where
  "table_row item =
     (let receipt_kb = real_of_int (receipt_size_bytes item) / 1024;
          journal_kb = real_of_int (journal_size_bytes item) / 1024
      in rjust 4 (str_int (participant_count item)) @ '' | ''
         @ rjust 12 (commas_int (user_cycles item)) @ '' | ''
         @ rjust 13 (commas_int (total_cycles item)) @ '' | ''
         @ rjust 8 (str_int (session_segments item)) @ '' | ''
         @ rjust 12 (commas_int (proving_time_ms item)) @ '' | ''
         @ rjust 10 (commas_int (total_time_ms item)) @ '' | ''
         @ rjust 12 (format_fixed False 2 receipt_kb) @ '' | ''
         @ rjust 12 (format_fixed False 2 journal_kb))"

text \<open>Lines 43 to 56: the banner, the overall statistics and the top of the table.\<close>

definition report_banner :: "benchmark_record \<Rightarrow> benchmark_record list \<Rightarrow> string list" where
  "report_banner d ds =
     [newline @ rule_line (CHR ''='') 80,
      ''RISC Zero Auction Benchmark Analysis'',
      rule_line (CHR ''='') 80 @ newline,
      ''Total benchmark runs: '' @ str_int (int (length (d # ds))),
      ''Participant range: ''
        @ str_int (min_by (\<lambda>v. v) (participant_count d) (map participant_count ds))
        @ '' to ''
        @ str_int (max_by (\<lambda>v. v) (participant_count d) (map participant_count ds)),
      [],
      ''Detailed Results:'',
      rule_line (CHR ''-'') 135,
      table_header,
      rule_line (CHR ''-'') 135]"

text \<open>Lines 58 to 68: the rows of the table, in the order of the sorted list.\<close>

definition table_rows :: "benchmark_record list \<Rightarrow> string list" where
  "table_rows data = map table_row (sorted_by_participants data)"

text \<open>Lines 81 to 85: the five ratios, computed in this order before anything is printed.\<close>

definition scaling_ratios ::
  "benchmark_record \<Rightarrow> benchmark_record \<Rightarrow> error + (real \<times> real \<times> real \<times> real \<times> real)" where
  "scaling_ratios first last' =
     (case truediv (of_int (participant_count last')) (of_int (participant_count first)) of
        Inl e \<Rightarrow> Inl e
      | Inr n_ratio \<Rightarrow>
     (case truediv (of_int (user_cycles last')) (of_int (user_cycles first)) of
        Inl e \<Rightarrow> Inl e
      | Inr user_cycle_ratio \<Rightarrow>
     (case truediv (of_int (total_cycles last')) (of_int (total_cycles first)) of
        Inl e \<Rightarrow> Inl e
      | Inr total_cycle_ratio \<Rightarrow>
     (case truediv (of_int (session_segments last')) (of_int (session_segments first)) of
        Inl e \<Rightarrow> Inl e
      | Inr segment_ratio \<Rightarrow>
     (case truediv (of_int (total_time_ms last')) (of_int (total_time_ms first)) of
        Inl e \<Rightarrow> Inl e
      | Inr time_ratio \<Rightarrow>
          Inr (n_ratio, user_cycle_ratio, total_cycle_ratio, segment_ratio, time_ratio))))))"

text \<open>Lines 87 to 92.\<close>

definition scaling_lines ::
  "benchmark_record \<Rightarrow> benchmark_record \<Rightarrow> real \<times> real \<times> real \<times> real \<times> real \<Rightarrow> string list" where
  "scaling_lines first last' ratios =
     (case ratios of (n_ratio, user_cycle_ratio, total_cycle_ratio, segment_ratio, time_ratio) \<Rightarrow>
     [''Participants increased by: '' @ format_fixed False 1 n_ratio @ ''x (''
        @ str_int (participant_count first) @ '' '' @ arrow @ '' ''
        @ str_int (participant_count last') @ '')'',
      ''User cycles increased by:  '' @ format_fixed False 2 user_cycle_ratio @ ''x (''
        @ commas_int (user_cycles first) @ '' '' @ arrow @ '' ''
        @ commas_int (user_cycles last') @ '')'',
      ''Total cycles increased by: '' @ format_fixed False 2 total_cycle_ratio @ ''x (''
        @ commas_int (total_cycles first) @ '' '' @ arrow @ '' ''
        @ commas_int (total_cycles last') @ '')'',
      ''Segments increased by:     '' @ format_fixed False 2 segment_ratio @ ''x (''
        @ str_int (session_segments first) @ '' '' @ arrow @ '' ''
        @ str_int (session_segments last') @ '')'',
      ''Time increased by:         '' @ format_fixed False 2 time_ratio @ ''x (''
        @ commas_int (total_time_ms first) @ ''ms '' @ arrow @ '' ''
        @ commas_int (total_time_ms last') @ ''ms)'',
      []])"

text \<open>
  \<^verbatim>\<open>math.log(x) / math.log(n_ratio)\<close>: the logarithm of the numerator is taken first,
  then that of the denominator, then the quotient.
\<close>

definition log_quotient :: "real \<Rightarrow> real \<Rightarrow> error + real" where
  "log_quotient x n_ratio =
     (case math_log x of
        Inl e \<Rightarrow> Inl e
      | Inr a \<Rightarrow> (case math_log n_ratio of Inl e \<Rightarrow> Inl e | Inr b \<Rightarrow> truediv a b))"

text \<open>The title of the complexity section, line 101.\<close>

definition complexity_title :: string where
  "complexity_title = ''Estimated Computational Complexity:''"

text \<open>
  Lines 96 to 105. The three exponents are computed before the first line of the section
  is printed; when the guard is false nothing is computed and nothing is printed.
\<close>

definition complexity_section :: "real \<times> real \<times> real \<times> real \<times> real \<Rightarrow> error + string list" where
  "complexity_section ratios =
     (case ratios of (n_ratio, user_cycle_ratio, total_cycle_ratio, segment_ratio, time_ratio) \<Rightarrow>
      if n_ratio > 1 then
        (case log_quotient user_cycle_ratio n_ratio of
           Inl e \<Rightarrow> Inl e
         | Inr complexity_user_cycles \<Rightarrow>
        (case log_quotient total_cycle_ratio n_ratio of
           Inl e \<Rightarrow> Inl e
         | Inr complexity_total_cycles \<Rightarrow>
        (case log_quotient time_ratio n_ratio of
           Inl e \<Rightarrow> Inl e
         | Inr complexity_time \<Rightarrow>
             Inr [complexity_title,
                  ''  User Cycles:  O(n^'' @ format_fixed False 2 complexity_user_cycles @ '')'',
                  ''  Total Cycles: O(n^'' @ format_fixed False 2 complexity_total_cycles @ '')'',
                  ''  Time:         O(n^'' @ format_fixed False 2 complexity_time @ '')'',
                  []])))
      else Inr [])"

text \<open>
  \<^verbatim>\<open>sum(d[field] / d['participant_count'] for d in data) / len(data)\<close>, lines 110 to 112.
\<close>

definition average_per_participant ::
  "(benchmark_record \<Rightarrow> int) \<Rightarrow> benchmark_record list \<Rightarrow> error + real" where
  "average_per_participant field data =
     (case sum_gen (\<lambda>d. truediv (of_int (field d)) (of_int (participant_count d))) 0 data of
        Inl e \<Rightarrow> Inl e
      | Inr s \<Rightarrow> truediv s (real (length data)))"

text \<open>
  Line 115, the term of one record: \<^verbatim>\<open>(total - user) / user * 100\<close>, with no guard.
\<close>

definition overhead_term :: "benchmark_record \<Rightarrow> error + real" where
  "overhead_term d =
     (case truediv (of_int (total_cycles d - user_cycles d)) (of_int (user_cycles d)) of
        Inl e \<Rightarrow> Inl e
      | Inr q \<Rightarrow> Inr (q * 100))"

definition average_overhead :: "benchmark_record list \<Rightarrow> error + real" where
  "average_overhead data =
     (case sum_gen overhead_term 0 data of
        Inl e \<Rightarrow> Inl e
      | Inr s \<Rightarrow> truediv s (real (length data)))"

text \<open>Lines 110 to 121: the four averages, then the four lines and an empty one.\<close>

definition efficiency_metrics :: "benchmark_record list \<Rightarrow> error + string list" where
  "efficiency_metrics data =
     (case average_per_participant user_cycles data of
        Inl e \<Rightarrow> Inl e
      | Inr avg_user_cycles_per_participant \<Rightarrow>
     (case average_per_participant total_cycles data of
        Inl e \<Rightarrow> Inl e
      | Inr avg_total_cycles_per_participant \<Rightarrow>
     (case average_per_participant total_time_ms data of
        Inl e \<Rightarrow> Inl e
      | Inr avg_time_per_participant \<Rightarrow>
     (case average_overhead data of
        Inl e \<Rightarrow> Inl e
      | Inr avg_overhead \<Rightarrow>
          Inr [''Average user cycles per participant:    ''
                 @ format_fixed True 0 avg_user_cycles_per_participant,
               ''Average total cycles per participant:   ''
                 @ format_fixed True 0 avg_total_cycles_per_participant,
               ''Average cycle overhead (padding):       ''
                 @ format_fixed False 1 avg_overhead @ ''%'',
               ''Average time per participant:           ''
                 @ format_fixed True 0 avg_time_per_participant @ '' ms'',
               []]))))"

text \<open>What is printed from line 43 up to line 75, before the first division by a field.\<close>

definition report_before_ratios :: "benchmark_record \<Rightarrow> benchmark_record list \<Rightarrow> string list" where
  "report_before_ratios d ds =
     report_banner d ds @ table_rows (d # ds)
     @ [rule_line (CHR ''-'') 135, [], ''Scaling Analysis:'', rule_line (CHR ''-'') 80]"

text \<open>
  \<^verbatim>\<open>print_statistics\<close>: the texts printed, and the exception that ended the call, if any.
  What was printed before an exception stays printed.
\<close>

definition print_statistics :: "benchmark_record list \<Rightarrow> string list \<times> error option" where
  "print_statistics data =
     (case data of
        [] \<Rightarrow> ([''No data to analyze''], None)
      | d # ds \<Rightarrow>
          (let out1 = report_before_ratios d ds;
               first = min_by participant_count d ds;
               last' = max_by participant_count d ds
           in case scaling_ratios first last' of
                Inl e \<Rightarrow> (out1, Some e)
              | Inr ratios \<Rightarrow>
                  (let out2 = out1 @ scaling_lines first last' ratios
                   in case complexity_section ratios of
                        Inl e \<Rightarrow> (out2, Some e)
                      | Inr section_lines \<Rightarrow>
                          (let out3 = out2 @ section_lines
                                        @ [''Efficiency Metrics:'', rule_line (CHR ''-'') 80]
                           in case efficiency_metrics data of
                                Inl e \<Rightarrow> (out3, Some e)
                              | Inr lines \<Rightarrow> (out3 @ lines, None)))))"

section \<open>Loader\<close>

text \<open>
  The result of \<^verbatim>\<open>json.load\<close> on a file: a parse failure raises \<^verbatim>\<open>JSONDecodeError\<close>.
  A file that parses holds what the input format says: \<^verbatim>\<open>benchmark_summary.json\<close> a
  list of records, any other file one record.
\<close>

datatype 'a parsed = Malformed | Parsed 'a

text \<open>
  What the program can see at the path of a results directory: the summary file, if there
  is one, and the other entries by name, in the order in which the directory lists them. A
  path that exists without being a directory shows no summary file and no entries, which is
  what \<^verbatim>\<open>Path.exists\<close> and \<^verbatim>\<open>Path.glob\<close> report for it. The files are readable.
\<close>

record results_dir =
  summary_file :: "benchmark_record list parsed option"
  other_files :: "(string \<times> benchmark_record parsed) list"

text \<open>
  The pattern \<^verbatim>\<open>benchmark_N*.json\<close>: the star stands for any run of characters, also the
  empty one, and the match is case-sensitive.
\<close>

definition matches_pattern :: "string \<Rightarrow> bool" where
  "matches_pattern name =
     (length name \<ge> 16 \<and> take 11 name = ''benchmark_N''
      \<and> drop (length name - 5) name = ''.json'')"

text \<open>
  \<^verbatim>\<open>sorted(Path(results_dir).glob(...))\<close>: paths of one directory compare as their names
  do, character by character.
\<close>

definition sorted_glob :: "results_dir \<Rightarrow> (string \<times> benchmark_record parsed) list" where
  "sorted_glob dir = sort_key fst (filter (\<lambda>f. matches_pattern (fst f)) (other_files dir))"

text \<open>The loop of lines 31 to 33.\<close>

fun load_files ::
  "benchmark_record list \<Rightarrow> (string \<times> benchmark_record parsed) list \<Rightarrow> error + benchmark_record list" where
  "load_files results [] = Inr results"
| "load_files results (json_file # files) =
     (case snd json_file of
        Malformed \<Rightarrow> Inl JSONDecodeError
      | Parsed r \<Rightarrow> load_files (results @ [r]) files)"

definition load_benchmark_data :: "results_dir \<Rightarrow> error + benchmark_record list" where
  "load_benchmark_data dir =
     (case summary_file dir of
        Some Malformed \<Rightarrow> Inl JSONDecodeError
      | Some (Parsed records) \<Rightarrow> Inr records
      | None \<Rightarrow> load_files [] (sorted_glob dir))"

section \<open>Chart renderer\<close>

text \<open>
  The drawing itself is matplotlib's; the model keeps the series handed to it and the path
  of the image. Whether \<^verbatim>\<open>import matplotlib\<close> succeeds is a parameter.
\<close>

record plot_series =
  participants :: "int list"
  series_user_cycles :: "int list"
  series_total_cycles :: "int list"
  segments :: "int list"
  times :: "real list"
  overhead :: "real list"

record plot_result =
  plot_file :: "(string \<times> plot_series) option"
  plot_stdout :: "string list"

text \<open>\<^verbatim>\<open>os.path.join(a, b)\<close> for a relative \<open>b\<close>.\<close>

definition path_join :: "string \<Rightarrow> string \<Rightarrow> string" where
  "path_join a b = (if a = [] \<or> last a = CHR ''/'' then a @ b else a @ ''/'' @ b)"

text \<open>Line 202: the guarded overhead of the chart.\<close>

definition plot_overhead :: "int \<Rightarrow> int \<Rightarrow> real" where
  "plot_overhead u t = (if u > 0 then real_of_int (t - u) / real_of_int u * 100 else 0)"

definition generate_plot :: "bool \<Rightarrow> benchmark_record list \<Rightarrow> string \<Rightarrow> plot_result" where
  "generate_plot matplotlib_available data output_dir =
     (if \<not> matplotlib_available
      then \<lparr>plot_file = None,
            plot_stdout = [''Note: matplotlib not available, skipping plot generation'',
                           ''      Install with: pip install matplotlib'']\<rparr>
      else
        (let sorted_data = sorted_by_participants data;
             output_file = path_join output_dir ''benchmark_plots.png''
         in \<lparr>plot_file = Some (output_file,
                 \<lparr>participants = map participant_count sorted_data,
                  series_user_cycles = map user_cycles sorted_data,
                  series_total_cycles = map total_cycles sorted_data,
                  segments = map session_segments sorted_data,
                  times = map (\<lambda>d. real_of_int (total_time_ms d) / 1000) sorted_data,
                  overhead = map (\<lambda>d. plot_overhead (user_cycles d) (total_cycles d)) sorted_data\<rparr>),
             plot_stdout = [check_mark @ '' Plots saved to: '' @ output_file]\<rparr>))"

section \<open>Driver\<close>

text \<open>
  One run of the program: what it printed, the exit status of the process, the exception
  that ended it (an uncaught exception ends a Python process with status 1), and the files
  it wrote. The file system maps a path to what is there, \<open>None\<close> when nothing is; the
  results directory is writable.
\<close>

record run =
  run_stdout :: "string list"
  exit_code :: int
  uncaught :: "error option"
  csv_written :: "(string \<times> cell list list) option"
  plot_written :: "(string \<times> plot_series) option"

definition default_results_dir :: string where
  "default_results_dir = ''benchmark_results/latest''"

definition closing_banner :: "string list" where
  "closing_banner =
     [newline @ rule_line (CHR ''='') 80, ''Analysis complete!'', rule_line (CHR ''='') 80 @ newline]"

text \<open>
  Lines 218 to 221, with \<open>args\<close> for \<^verbatim>\<open>sys.argv[1:]\<close>: the first argument, or the default.
\<close>

definition resolve_results_dir :: "string list \<Rightarrow> string" where
  "resolve_results_dir args = (case args of [] \<Rightarrow> default_results_dir | a # _ \<Rightarrow> a)"

text \<open>
  \<^verbatim>\<open>main\<close>, with \<open>prog\<close> for \<^verbatim>\<open>sys.argv[0]\<close> and \<open>args\<close> for \<^verbatim>\<open>sys.argv[1:]\<close>.
\<close>

definition main ::
  "bool \<Rightarrow> (string \<Rightarrow> results_dir option) \<Rightarrow> string \<Rightarrow> string list \<Rightarrow> run" where
  "main matplotlib_available fs prog args =
     (let results_dir = resolve_results_dir args
      in case fs results_dir of
        None \<Rightarrow>
          \<lparr>run_stdout = [''Error: Results directory not found: '' @ results_dir,
                         newline @ ''Usage: '' @ prog @ '' [results_dir]''],
           exit_code = 1, uncaught = None, csv_written = None, plot_written = None\<rparr>
      | Some dir \<Rightarrow>
          (let out0 = [''Loading benchmark data from: '' @ results_dir]
           in case load_benchmark_data dir of
             Inl e \<Rightarrow>
               \<lparr>run_stdout = out0, exit_code = 1, uncaught = Some e,
                csv_written = None, plot_written = None\<rparr>
           | Inr data \<Rightarrow>
               if data = [] then
                 \<lparr>run_stdout = out0 @ [''Error: No benchmark data found''],
                  exit_code = 1, uncaught = None, csv_written = None, plot_written = None\<rparr>
               else
                 (let out1 = out0 @ [''Loaded '' @ str_int (int (length data)) @ '' benchmark results'']
                            @ fst (print_statistics data)
                  in case snd (print_statistics data) of
                    Some e \<Rightarrow>
                      \<lparr>run_stdout = out1, exit_code = 1, uncaught = Some e,
                       csv_written = None, plot_written = None\<rparr>
                  | None \<Rightarrow>
                      (let csv_output = path_join results_dir ''detailed_analysis.csv'';
                           csv = generate_csv_report data csv_output;
                           out2 = out1 @ csv_stdout csv
                       in case csv_error csv of
                         Some e \<Rightarrow>
                           \<lparr>run_stdout = out2, exit_code = 1, uncaught = Some e,
                            csv_written = Some (csv_output, csv_file csv), plot_written = None\<rparr>
                       | None \<Rightarrow>
                           (let plot = generate_plot matplotlib_available data results_dir
                            in \<lparr>run_stdout = out2 @ plot_stdout plot @ closing_banner,
                                exit_code = 0, uncaught = None,
                                csv_written = Some (csv_output, csv_file csv),
                                plot_written = plot_file plot\<rparr>)))))"

section \<open>Example inputs\<close>

text \<open>A record that spent no user cycles.\<close>

definition zero_user_record :: benchmark_record where
  "zero_user_record = \<lparr>participant_count = 2, user_cycles = 0, total_cycles = 1024,
     session_segments = 1, proving_time_ms = 10, total_time_ms = 20, receipt_size_bytes = 2048,
     journal_size_bytes = 512, timestamp = ''t0''\<rparr>"

text \<open>The two records of the end-to-end scenario of the specification.\<close>

definition scenario_n1 :: benchmark_record where
  "scenario_n1 = \<lparr>participant_count = 1, user_cycles = 1000, total_cycles = 1024,
     session_segments = 1, proving_time_ms = 500, total_time_ms = 600,
     receipt_size_bytes = 2048, journal_size_bytes = 512, timestamp = ''t1''\<rparr>"

definition scenario_n10 :: benchmark_record where
  "scenario_n10 = \<lparr>participant_count = 10, user_cycles = 9500, total_cycles = 16384,
     session_segments = 4, proving_time_ms = 4500, total_time_ms = 5000,
     receipt_size_bytes = 2048, journal_size_bytes = 4096, timestamp = ''t2''\<rparr>"

text \<open>
  A results directory without a summary file: two per-run files, listed out of order, and
  a file that the pattern does not match.
\<close>

definition per_run_dir :: results_dir where
  "per_run_dir = \<lparr>summary_file = None,
     other_files = [(''benchmark_N10.json'', Parsed scenario_n10), (''notes.txt'', Malformed),
                    (''benchmark_N1.json'', Parsed scenario_n1)]\<rparr>"

text \<open>A results directory with the summary file of the scenario and nothing else.\<close>

definition scenario_dir :: results_dir where
  "scenario_dir = \<lparr>summary_file = Some (Parsed [scenario_n1, scenario_n10]), other_files = []\<rparr>"

text \<open>A results directory with neither source.\<close>

definition empty_dir :: results_dir where
  "empty_dir = \<lparr>summary_file = None, other_files = []\<rparr>"

text \<open>
  A results directory whose summary file holds an empty array, beside a per-run file that
  would parse and one that would not.
\<close>

definition empty_summary_dir :: results_dir where
  "empty_summary_dir = \<lparr>summary_file = Some (Parsed []),
     other_files = [(''benchmark_N1.json'', Parsed scenario_n1),
                    (''benchmark_N2.json'', Malformed)]\<rparr>"

text \<open>A results directory whose summary file holds the one record without user cycles.\<close>

definition zero_user_dir :: results_dir where
  "zero_user_dir = \<lparr>summary_file = Some (Parsed [zero_user_record]), other_files = []\<rparr>"

text \<open>File systems with one results directory, at the path \<^verbatim>\<open>results\<close>.\<close>

definition only_results :: "results_dir \<Rightarrow> string \<Rightarrow> results_dir option" where
  "only_results dir path = (if path = ''results'' then Some dir else None)"

section \<open>Auxiliary facts\<close>

lemma truediv_zero [simp]: "truediv a 0 = Inl ZeroDivisionError"
  by (simp add: truediv_def)

lemma truediv_nonzero: "b \<noteq> 0 \<Longrightarrow> truediv a b = Inr (a / b)"
  by (simp add: truediv_def)

lemma truediv_Inl: "truediv a b = Inl e \<Longrightarrow> e = ZeroDivisionError \<and> b = 0"
  by (auto simp: truediv_def split: if_splits)

lemma min_by_in: "min_by f x xs \<in> set (x # xs)"
  unfolding min_by_def by (induction xs arbitrary: x) auto

lemma min_by_le: "y \<in> set (x # xs) \<Longrightarrow> f (min_by f x xs) \<le> f y"
  unfolding min_by_def
proof (induction xs arbitrary: x y)
  case Nil
  then show ?case by simp
next
  case (Cons a xs)
  have mono: "f (foldl (\<lambda>m y. if f y < f m then y else m) z xs) \<le> f z" for z
    using Cons.IH [of z z] by simp
  show ?case
  proof (cases "y \<in> set xs")
    case True
    then show ?thesis using Cons.IH [of y "if f a < f x then a else x"] by simp
  next
    case False
    with Cons.prems have "y = x \<or> y = a" by auto
    then show ?thesis
      using mono [of "if f a < f x then a else x"] by (auto split: if_splits)
  qed
qed

lemma max_by_in: "max_by f x xs \<in> set (x # xs)"
  unfolding max_by_def by (induction xs arbitrary: x) auto

lemma max_by_ge: "y \<in> set (x # xs) \<Longrightarrow> f y \<le> f (max_by f x xs)"
  unfolding max_by_def
proof (induction xs arbitrary: x y)
  case Nil
  then show ?case by simp
next
  case (Cons a xs)
  have mono: "f z \<le> f (foldl (\<lambda>m y. if f y > f m then y else m) z xs)" for z
    using Cons.IH [of z z] by simp
  show ?case
  proof (cases "y \<in> set xs")
    case True
    then show ?thesis using Cons.IH [of y "if f a > f x then a else x"] by simp
  next
    case False
    with Cons.prems have "y = x \<or> y = a" by auto
    then show ?thesis
      using mono [of "if f a > f x then a else x"] by (auto split: if_splits)
  qed
qed

lemma overhead_term_zero: "user_cycles d = 0 \<Longrightarrow> overhead_term d = Inl ZeroDivisionError"
  by (simp add: overhead_term_def)

lemma overhead_term_Inl: "overhead_term d = Inl e \<Longrightarrow> e = ZeroDivisionError"
  by (auto simp: overhead_term_def dest: truediv_Inl split: sum.splits)

lemma sum_gen_overhead_fails:
  "\<exists>d\<in>set data. user_cycles d = 0 \<Longrightarrow> sum_gen overhead_term acc data = Inl ZeroDivisionError"
proof (induction data arbitrary: acc)
  case Nil
  then show ?case by simp
next
  case (Cons d ds)
  show ?case
  proof (cases "overhead_term d")
    case (Inl e)
    then show ?thesis using overhead_term_Inl [OF Inl] by simp
  next
    case (Inr v)
    then have "user_cycles d \<noteq> 0" using overhead_term_zero [of d] by auto
    with Cons.prems have "\<exists>d\<in>set ds. user_cycles d = 0" by auto
    then show ?thesis using Cons.IH Inr by simp
  qed
qed

lemma average_overhead_fails:
  "\<exists>d\<in>set data. user_cycles d = 0 \<Longrightarrow> average_overhead data = Inl ZeroDivisionError"
  by (simp add: average_overhead_def sum_gen_overhead_fails)

lemma efficiency_metrics_fails:
  "\<exists>d\<in>set data. user_cycles d = 0 \<Longrightarrow> \<exists>e. efficiency_metrics data = Inl e"
  by (auto simp: efficiency_metrics_def average_overhead_fails split: sum.splits)

lemma print_statistics_fails:
  assumes "\<exists>d\<in>set data. user_cycles d = 0"
  shows "\<exists>e. snd (print_statistics data) = Some e"
proof (cases data)
  case Nil
  with assms show ?thesis by simp
next
  case (Cons d ds)
  obtain e where "efficiency_metrics data = Inl e"
    using efficiency_metrics_fails [OF assms] by blast
  then show ?thesis
    by (simp add: print_statistics_def Cons Let_def split: sum.splits)
qed

lemma csv_overhead_zero: "user_cycles item = 0 \<Longrightarrow> csv_overhead item = Inr (CInt 0)"
  by (simp add: csv_overhead_def)

lemma csv_row_cells:
  "csv_row item = Inr row \<Longrightarrow>
     participant_count item \<noteq> 0 \<and> length row = 13
     \<and> row ! 0 = CInt (participant_count item) \<and> row ! 1 = CInt (user_cycles item)
     \<and> row ! 8 = CFloat (real_of_int (user_cycles item) / real_of_int (participant_count item))
     \<and> csv_overhead item = Inr (row ! 10)"
  by (auto simp: csv_row_def truediv_def split: sum.splits if_splits)

lemma csv_row_ok:
  "participant_count item \<noteq> 0 \<Longrightarrow> \<exists>row. csv_row item = Inr row"
  by (auto simp: csv_row_def csv_overhead_def truediv_def split: sum.splits if_splits)

lemma write_rows_shape:
  "write_rows written items = (rows, err) \<Longrightarrow>
     \<exists>new. rows = written @ new \<and> length new \<le> length items
       \<and> list_all2 (\<lambda>item row. csv_row item = Inr row) (take (length new) items) new
       \<and> (err = None \<longrightarrow> length new = length items)
       \<and> (\<forall>e. err = Some e \<longrightarrow> length new < length items \<and> csv_row (items ! length new) = Inl e)"
proof (induction items arbitrary: written)
  case Nil
  then show ?case by simp
next
  case (Cons item items)
  show ?case
  proof (cases "csv_row item")
    case (Inl e)
    with Cons.prems show ?thesis by auto
  next
    case (Inr row)
    with Cons.prems have "write_rows (written @ [row]) items = (rows, err)" by simp
    from Cons.IH [OF this] obtain new where new:
      "rows = (written @ [row]) @ new" "length new \<le> length items"
      "list_all2 (\<lambda>item row. csv_row item = Inr row) (take (length new) items) new"
      "err = None \<longrightarrow> length new = length items"
      "\<forall>e. err = Some e \<longrightarrow> length new < length items \<and> csv_row (items ! length new) = Inl e"
      by blast
    show ?thesis
      by (rule exI [of _ "row # new"]) (use new Inr in auto)
  qed
qed

lemma csv_rows_written:
  obtains k where "k \<le> length data"
    and "list_all2 (\<lambda>item row. csv_row item = Inr row) (take k (sorted_by_participants data))
          (tl (csv_file (generate_csv_report data f)))"
    and "csv_file (generate_csv_report data f)
          = csv_header # tl (csv_file (generate_csv_report data f))"
    and "csv_error (generate_csv_report data f) = None \<longrightarrow> k = length data"
    and "\<forall>e. csv_error (generate_csv_report data f) = Some e \<longrightarrow>
           k < length data \<and> csv_row (sorted_by_participants data ! k) = Inl e"
proof -
  obtain rows err where w: "write_rows [csv_header] (sorted_by_participants data) = (rows, err)"
    by (cases "write_rows [csv_header] (sorted_by_participants data)")
  from write_rows_shape [OF w] obtain new where new:
    "rows = [csv_header] @ new \<and> length new \<le> length (sorted_by_participants data)
     \<and> list_all2 (\<lambda>item row. csv_row item = Inr row) (take (length new) (sorted_by_participants data)) new
     \<and> (err = None \<longrightarrow> length new = length (sorted_by_participants data))
     \<and> (\<forall>e. err = Some e \<longrightarrow> length new < length (sorted_by_participants data)
        \<and> csv_row (sorted_by_participants data ! length new) = Inl e)"
    by (rule exE)
  have len: "length (sorted_by_participants data) = length data"
    by (simp add: sorted_by_participants_def)
  have contents: "csv_file (generate_csv_report data f) = csv_header # new"
    and err: "csv_error (generate_csv_report data f) = err"
    using w new by (auto simp: generate_csv_report_def split: option.splits)
  show thesis
    by (rule that [of "length new"]) (use new len contents err in auto)
qed


lemma load_files_all_parsed:
  "\<forall>f\<in>set files. snd f \<noteq> Malformed \<Longrightarrow>
     \<exists>new. load_files results files = Inr (results @ new)
       \<and> list_all2 (\<lambda>f r. snd f = Parsed r) files new"
proof (induction files arbitrary: results)
  case Nil
  then show ?case by simp
next
  case (Cons json_file files)
  then obtain r where r: "snd json_file = Parsed r" by (cases "snd json_file") auto
  from Cons.prems have "\<forall>f\<in>set files. snd f \<noteq> Malformed" by simp
  from Cons.IH [OF this, of "results @ [r]"] obtain new where
    new: "load_files (results @ [r]) files = Inr ((results @ [r]) @ new)"
      "list_all2 (\<lambda>f r. snd f = Parsed r) files new"
    by blast
  show ?case
    by (rule exI [of _ "r # new"]) (use r new in simp)
qed


lemma sorted_glob_per_run_dir:
  "sorted_glob per_run_dir
     = [(''benchmark_N1.json'', Parsed scenario_n1), (''benchmark_N10.json'', Parsed scenario_n10)]"
  by (simp add: sorted_glob_def per_run_dir_def matches_pattern_def)

lemma main_missing_dir:
  "fs (resolve_results_dir args) = None \<Longrightarrow>
     main m fs prog args =
       \<lparr>run_stdout = [''Error: Results directory not found: ''
                         @ (resolve_results_dir args),
                       newline @ ''Usage: '' @ prog @ '' [results_dir]''],
        exit_code = 1, uncaught = None, csv_written = None, plot_written = None\<rparr>"
  by (simp add: main_def Let_def)

lemma main_load_error:
  "fs (resolve_results_dir args) = Some dir \<Longrightarrow>
   load_benchmark_data dir = Inl e \<Longrightarrow>
     main m fs prog args =
       \<lparr>run_stdout = [''Loading benchmark data from: ''
                         @ (resolve_results_dir args)],
        exit_code = 1, uncaught = Some e, csv_written = None, plot_written = None\<rparr>"
  by (simp add: main_def Let_def)

lemma main_no_data:
  "fs (resolve_results_dir args) = Some dir \<Longrightarrow>
   load_benchmark_data dir = Inr [] \<Longrightarrow>
     main m fs prog args =
       \<lparr>run_stdout = [''Loading benchmark data from: ''
                         @ (resolve_results_dir args),
                       ''Error: No benchmark data found''],
        exit_code = 1, uncaught = None, csv_written = None, plot_written = None\<rparr>"
  by (simp add: main_def Let_def)

lemma main_report_error:
  "fs (resolve_results_dir args) = Some dir \<Longrightarrow>
   load_benchmark_data dir = Inr data \<Longrightarrow> data \<noteq> [] \<Longrightarrow>
   snd (print_statistics data) = Some e \<Longrightarrow>
     exit_code (main m fs prog args) = 1 \<and> uncaught (main m fs prog args) = Some e
     \<and> csv_written (main m fs prog args) = None \<and> plot_written (main m fs prog args) = None"
  by (simp add: main_def Let_def)

lemma main_csv_error:
  "fs (resolve_results_dir args) = Some dir \<Longrightarrow>
   load_benchmark_data dir = Inr data \<Longrightarrow> data \<noteq> [] \<Longrightarrow>
   snd (print_statistics data) = None \<Longrightarrow>
   csv_error (generate_csv_report data
      (path_join (resolve_results_dir args) ''detailed_analysis.csv''))
     = Some e \<Longrightarrow>
     exit_code (main m fs prog args) = 1 \<and> uncaught (main m fs prog args) = Some e
     \<and> plot_written (main m fs prog args) = None"
  by (simp add: main_def Let_def)

lemma main_complete:
  "fs (resolve_results_dir args) = Some dir \<Longrightarrow>
   load_benchmark_data dir = Inr data \<Longrightarrow> data \<noteq> [] \<Longrightarrow>
   snd (print_statistics data) = None \<Longrightarrow>
   csv_error (generate_csv_report data
      (path_join (resolve_results_dir args) ''detailed_analysis.csv''))
     = None \<Longrightarrow>
     main m fs prog args =
       \<lparr>run_stdout =
          [''Loading benchmark data from: ''
             @ (resolve_results_dir args),
           ''Loaded '' @ str_int (int (length data)) @ '' benchmark results'']
          @ fst (print_statistics data)
          @ csv_stdout (generate_csv_report data
              (path_join (resolve_results_dir args)
                 ''detailed_analysis.csv''))
          @ plot_stdout (generate_plot m data
              (resolve_results_dir args))
          @ closing_banner,
        exit_code = 0, uncaught = None,
        csv_written = Some
          (path_join (resolve_results_dir args) ''detailed_analysis.csv'',
           csv_file (generate_csv_report data
              (path_join (resolve_results_dir args)
                 ''detailed_analysis.csv''))),
        plot_written = plot_file (generate_plot m data
              (resolve_results_dir args))\<rparr>"
  by (simp add: main_def Let_def)

lemma main_before_plot:
  "exit_code (main m fs prog args) = exit_code (main m' fs prog args)
   \<and> uncaught (main m fs prog args) = uncaught (main m' fs prog args)
   \<and> csv_written (main m fs prog args) = csv_written (main m' fs prog args)"
  by (simp add: main_def Let_def split: option.splits sum.splits)

lemma sum_gen_ok:
  "\<forall>d\<in>set data. \<exists>v. g d = Inr v \<Longrightarrow> \<exists>s. sum_gen g acc data = Inr s"
proof (induction data arbitrary: acc)
  case Nil
  then show ?case by simp
next
  case (Cons d ds)
  then obtain v where "g d = Inr v" by auto
  moreover from Cons.prems have "\<forall>d\<in>set ds. \<exists>v. g d = Inr v" by simp
  ultimately show ?case using Cons.IH [of "acc + v"] by simp
qed

lemma average_per_participant_ok:
  assumes "data \<noteq> []" and "\<forall>d\<in>set data. participant_count d \<noteq> 0"
  shows "\<exists>v. average_per_participant field data = Inr v"
proof -
  have "\<forall>d\<in>set data. \<exists>v. truediv (of_int (field d)) (of_int (participant_count d)) = Inr v"
    using assms(2) by (simp add: truediv_def)
  from sum_gen_ok [OF this, of 0] obtain s where
    "sum_gen (\<lambda>d. truediv (of_int (field d)) (of_int (participant_count d))) 0 data = Inr s"
    by (rule exE)
  then show ?thesis using assms(1) by (simp add: average_per_participant_def truediv_def)
qed

lemma average_overhead_ok:
  assumes "data \<noteq> []" and "\<forall>d\<in>set data. user_cycles d \<noteq> 0"
  shows "\<exists>v. average_overhead data = Inr v"
proof -
  have "\<forall>d\<in>set data. \<exists>v. overhead_term d = Inr v"
    using assms(2) by (simp add: overhead_term_def truediv_def)
  from sum_gen_ok [OF this, of 0] obtain s where "sum_gen overhead_term 0 data = Inr s"
    by (rule exE)
  then show ?thesis using assms(1) by (simp add: average_overhead_def truediv_def)
qed

lemma efficiency_metrics_ok:
  assumes "data \<noteq> []" and "\<forall>d\<in>set data. participant_count d \<noteq> 0"
    and "\<forall>d\<in>set data. user_cycles d \<noteq> 0"
  shows "\<exists>lines. efficiency_metrics data = Inr lines"
proof -
  obtain a where a: "average_per_participant user_cycles data = Inr a"
    using average_per_participant_ok [OF assms(1,2), of user_cycles] by (rule exE)
  obtain b where b: "average_per_participant total_cycles data = Inr b"
    using average_per_participant_ok [OF assms(1,2), of total_cycles] by (rule exE)
  obtain c where c: "average_per_participant total_time_ms data = Inr c"
    using average_per_participant_ok [OF assms(1,2), of total_time_ms] by (rule exE)
  obtain d where d: "average_overhead data = Inr d"
    using average_overhead_ok [OF assms(1,3)] by (rule exE)
  show ?thesis by (simp add: efficiency_metrics_def a b c d)
qed

lemma print_statistics_complete:
  assumes "first = min_by participant_count d ds" and "last' = max_by participant_count d ds"
    and "scaling_ratios first last' = Inr ratios"
    and "complexity_section ratios = Inr section_lines"
    and "efficiency_metrics (d # ds) = Inr lines"
  shows "print_statistics (d # ds) =
    (report_before_ratios d ds @ scaling_lines first last' ratios @ section_lines
       @ [''Efficiency Metrics:'', rule_line (CHR ''-'') 80] @ lines, None)"
  using assms by (simp add: print_statistics_def Let_def)

lemma scenario_ratios:
  "scaling_ratios scenario_n1 scenario_n10 = Inr (10, 19 / 2, 16, 4, 25 / 3)"
  by (simp add: scaling_ratios_def truediv_def scenario_n1_def scenario_n10_def)

lemma scenario_first_last:
  "scenario_n1 = min_by participant_count scenario_n1 [scenario_n10]"
  "scenario_n10 = max_by participant_count scenario_n1 [scenario_n10]"
  by (simp_all add: min_by_def max_by_def scenario_n1_def scenario_n10_def)

lemma scenario_complexity:
  "complexity_section (10, 19 / 2, 16, 4, 25 / 3) =
     Inr [complexity_title,
          ''  User Cycles:  O(n^'' @ format_fixed False 2 (ln (19 / 2) / ln 10) @ '')'',
          ''  Total Cycles: O(n^'' @ format_fixed False 2 (ln 16 / ln 10) @ '')'',
          ''  Time:         O(n^'' @ format_fixed False 2 (ln (25 / 3) / ln 10) @ '')'',
          []]"
  by (simp add: complexity_section_def log_quotient_def math_log_def truediv_def)

lemma scenario_efficiency:
  "\<exists>lines. efficiency_metrics [scenario_n1, scenario_n10] = Inr lines"
  by (rule efficiency_metrics_ok) (simp_all add: scenario_n1_def scenario_n10_def)

lemma format_fixed_values:
  "format_fixed False 1 10 = ''10.0''" "format_fixed False 2 (19 / 2) = ''9.50''"
  "format_fixed False 1 (12 / 5) = ''2.4''" "format_fixed False 2 (6884 / 95) = ''72.46''"
  by code_simp+

lemma str_int_values: "str_int 1 = ''1''" "str_int 10 = ''10''"
  by code_simp+

lemma zero_pad_values: "zero_pad 3 0 = ''000''" "zero_pad 3 500 = ''500''"
  by code_simp+

lemma str_nat_values: "str_nat 1 = ''1''" "str_nat 9 = ''9''"
  by code_simp+

lemma commas_int_values: "commas_int 1000 = ''1,000''" "commas_int 9500 = ''9,500''"
  by (simp_all add: commas_int_def commas_nat.simps zero_pad_values str_nat_values
      del: One_nat_def)

lemma scenario_range_line:
  "report_banner scenario_n1 [scenario_n10] ! 4 = ''Participant range: 1 to 10''"
  by (simp add: report_banner_def min_by_def max_by_def scenario_n1_def scenario_n10_def
      str_int_values)

lemma scenario_ratio_lines:
  "scaling_lines scenario_n1 scenario_n10 (10, 19 / 2, 16, 4, 25 / 3) ! 0
     = ''Participants increased by: 10.0x (1 '' @ arrow @ '' 10)''"
  "scaling_lines scenario_n1 scenario_n10 (10, 19 / 2, 16, 4, 25 / 3) ! 1
     = ''User cycles increased by:  9.50x (1,000 '' @ arrow @ '' 9,500)''"
  by (simp_all add: scaling_lines_def scenario_n1_def scenario_n10_def
      format_fixed_values str_int_values commas_int_values del: One_nat_def)

lemma scenario_csv:
  "generate_csv_report [scenario_n1, scenario_n10] output_file =
     \<lparr>csv_file =
        [csv_header,
         [CInt 1, CInt 1000, CInt 1024, CInt 1, CInt 500, CInt 600, CInt 2048, CInt 512,
          CFloat 1000, CFloat 1024, CFloat (12 / 5), CFloat 600, CStr ''t1''],
         [CInt 10, CInt 9500, CInt 16384, CInt 4, CInt 4500, CInt 5000, CInt 2048, CInt 4096,
          CFloat 950, CFloat (8192 / 5), CFloat (6884 / 95), CFloat 500, CStr ''t2'']],
      csv_stdout = [check_mark @ '' Detailed CSV report saved to: '' @ output_file],
      csv_error = None\<rparr>"
  by (simp add: generate_csv_report_def sorted_by_participants_def csv_row_def csv_overhead_def
      truediv_def scenario_n1_def scenario_n10_def)

lemma scenario_report:
  "\<exists>lines. print_statistics [scenario_n1, scenario_n10] =
     (report_before_ratios scenario_n1 [scenario_n10]
        @ scaling_lines scenario_n1 scenario_n10 (10, 19 / 2, 16, 4, 25 / 3)
        @ [complexity_title,
           ''  User Cycles:  O(n^'' @ format_fixed False 2 (ln (19 / 2) / ln 10) @ '')'',
           ''  Total Cycles: O(n^'' @ format_fixed False 2 (ln 16 / ln 10) @ '')'',
           ''  Time:         O(n^'' @ format_fixed False 2 (ln (25 / 3) / ln 10) @ '')'',
           []]
        @ [''Efficiency Metrics:'', rule_line (CHR ''-'') 80] @ lines, None)"
proof -
  obtain lines where "efficiency_metrics [scenario_n1, scenario_n10] = Inr lines"
    using scenario_efficiency by (rule exE)
  note complete =
    print_statistics_complete [OF scenario_first_last scenario_ratios scenario_complexity this]
  show ?thesis by (rule exI, rule complete)
qed

lemma scenario_load: "load_benchmark_data scenario_dir = Inr [scenario_n1, scenario_n10]"
  by (simp add: load_benchmark_data_def scenario_dir_def)

lemma only_results_hit: "only_results dir (resolve_results_dir [''results'']) = Some dir"
  by (simp add: only_results_def resolve_results_dir_def)

lemma scaling_lines_length: "length (scaling_lines first last' ratios) = 6"
  by (cases ratios) (simp add: scaling_lines_def split: prod.splits)

lemma report_banner_length: "length (report_banner d ds) = 10"
  by (simp add: report_banner_def)

lemma in_set_front: "x \<in> set xs \<Longrightarrow> x \<in> set ((xs @ ys) @ zs)"
  by simp

lemma in_set_middle: "x \<in> set ys \<Longrightarrow> x \<in> set (xs @ ys @ zs)"
  by simp

lemma generate_plot_unavailable:
  "generate_plot False data output_dir =
     \<lparr>plot_file = None,
      plot_stdout = [''Note: matplotlib not available, skipping plot generation'',
                     ''      Install with: pip install matplotlib'']\<rparr>"
  by (simp add: generate_plot_def)

lemma main_plot_unavailable: "plot_written (main False fs prog args) = None"
  by (simp add: main_def Let_def generate_plot_def split: option.splits sum.splits)

lemma main_complete_unavailable:
  assumes h1: "fs (resolve_results_dir args) = Some dir"
    and h2: "load_benchmark_data dir = Inr loaded" and h3: "loaded \<noteq> []"
    and h4: "snd (print_statistics loaded) = None"
    and h5: "csv_error (generate_csv_report loaded
             (path_join (resolve_results_dir args) ''detailed_analysis.csv'')) = None"
  shows "exit_code (main False fs prog args) = 0 \<and> uncaught (main False fs prog args) = None
        \<and> (\<exists>before. run_stdout (main False fs prog args) =
               before @ [''Note: matplotlib not available, skipping plot generation'',
                         ''      Install with: pip install matplotlib''] @ closing_banner)"
proof -
  note r = main_complete [where fs = fs and args = args and m = False and prog = prog,
      OF h1 h2 h3 h4 h5]
  have out: "run_stdout (main False fs prog args) =
        ([''Loading benchmark data from: '' @ resolve_results_dir args,
          ''Loaded '' @ str_int (int (length loaded)) @ '' benchmark results'']
         @ fst (print_statistics loaded)
         @ csv_stdout (generate_csv_report loaded
             (path_join (resolve_results_dir args) ''detailed_analysis.csv'')))
        @ [''Note: matplotlib not available, skipping plot generation'',
           ''      Install with: pip install matplotlib''] @ closing_banner"
    by (simp only: r run.select_convs generate_plot_unavailable plot_result.select_convs
        append_assoc)
  have "\<exists>before. run_stdout (main False fs prog args) =
               before @ [''Note: matplotlib not available, skipping plot generation'',
                         ''      Install with: pip install matplotlib''] @ closing_banner"
    by (rule exI, rule out)
  moreover have "exit_code (main False fs prog args) = 0" "uncaught (main False fs prog args) = None"
    by (simp_all only: r run.select_convs)
  ultimately show ?thesis by (intro conjI)
qed

lemma load_summary:
  "summary_file dir = Some (Parsed records) \<Longrightarrow> load_benchmark_data dir = Inr records"
  by (simp add: load_benchmark_data_def)

section \<open>Claims\<close>

text \<open>
  Claim C1. The loader returns the parsed contents of \<^verbatim>\<open>benchmark_summary.json\<close> when that
  file is there. When it is absent, the loader parses the files that match
  \<^verbatim>\<open>benchmark_N*.json\<close>, which are taken in the order of their names, and returns their
  records in that order. When there is no summary file and no matching file, it returns the
  empty list.
\<close>

theorem loader_sources:
  "(summary_file dir = Some (Parsed records) \<longrightarrow> load_benchmark_data dir = Inr records)
   \<and> (summary_file dir = None \<and> (\<forall>f\<in>set (sorted_glob dir). snd f \<noteq> Malformed) \<longrightarrow>
        (\<exists>records. load_benchmark_data dir = Inr records
           \<and> list_all2 (\<lambda>f r. snd f = Parsed r) (sorted_glob dir) records))
   \<and> sorted (map fst (sorted_glob dir))
   \<and> mset (sorted_glob dir) = filter_mset (\<lambda>f. matches_pattern (fst f)) (mset (other_files dir))
   \<and> (summary_file dir = None \<and> (\<forall>f\<in>set (other_files dir). \<not> matches_pattern (fst f)) \<longrightarrow>
        load_benchmark_data dir = Inr [])"
proof -
  have a: "summary_file dir = Some (Parsed records) \<longrightarrow> load_benchmark_data dir = Inr records"
    by (simp add: load_benchmark_data_def)
  have b: "summary_file dir = None \<and> (\<forall>f\<in>set (sorted_glob dir). snd f \<noteq> Malformed) \<longrightarrow>
        (\<exists>records. load_benchmark_data dir = Inr records
           \<and> list_all2 (\<lambda>f r. snd f = Parsed r) (sorted_glob dir) records)"
  proof
    assume h: "summary_file dir = None \<and> (\<forall>f\<in>set (sorted_glob dir). snd f \<noteq> Malformed)"
    then obtain new where "load_files [] (sorted_glob dir) = Inr ([] @ new)"
      "list_all2 (\<lambda>f r. snd f = Parsed r) (sorted_glob dir) new"
      using load_files_all_parsed [of "sorted_glob dir" "[]"] by blast
    with h show "\<exists>records. load_benchmark_data dir = Inr records
           \<and> list_all2 (\<lambda>f r. snd f = Parsed r) (sorted_glob dir) records"
      by (simp add: load_benchmark_data_def)
  qed
  have c: "sorted (map fst (sorted_glob dir))"
    and d: "mset (sorted_glob dir) = filter_mset (\<lambda>f. matches_pattern (fst f)) (mset (other_files dir))"
    by (simp_all add: sorted_glob_def)
  have e: "summary_file dir = None \<and> (\<forall>f\<in>set (other_files dir). \<not> matches_pattern (fst f)) \<longrightarrow>
        load_benchmark_data dir = Inr []"
  proof
    assume h: "summary_file dir = None \<and> (\<forall>f\<in>set (other_files dir). \<not> matches_pattern (fst f))"
    then have "filter (\<lambda>f. matches_pattern (fst f)) (other_files dir) = []"
      by (simp add: filter_empty_conv)
    with h show "load_benchmark_data dir = Inr []"
      by (simp add: load_benchmark_data_def sorted_glob_def)
  qed
  show ?thesis using a b c d e by (intro conjI)
qed

theorem loader_sources_witness:
  "summary_file scenario_dir = Some (Parsed [scenario_n1, scenario_n10])
   \<and> load_benchmark_data scenario_dir = Inr [scenario_n1, scenario_n10]
   \<and> summary_file per_run_dir = None
   \<and> map snd (sorted_glob per_run_dir) = [Parsed scenario_n1, Parsed scenario_n10]
   \<and> load_benchmark_data per_run_dir = Inr [scenario_n1, scenario_n10]
   \<and> summary_file empty_dir = None
   \<and> other_files empty_dir = []
   \<and> load_benchmark_data empty_dir = Inr []"
proof -
  have a: "summary_file scenario_dir = Some (Parsed [scenario_n1, scenario_n10])"
    by (simp add: scenario_dir_def)
  have b: "summary_file per_run_dir = None"
    "\<forall>f\<in>set (sorted_glob per_run_dir). snd f \<noteq> Malformed"
    by (simp_all add: sorted_glob_per_run_dir) (simp add: per_run_dir_def)
  have c: "summary_file empty_dir = None"
    "\<forall>f\<in>set (other_files empty_dir). \<not> matches_pattern (fst f)"
    by (simp_all add: empty_dir_def)
  from loader_sources [of per_run_dir "[]"] b
  obtain records where r: "load_benchmark_data per_run_dir = Inr records"
    "list_all2 (\<lambda>f r. snd f = Parsed r) (sorted_glob per_run_dir) records"
    by blast
  from r(2) have "records = [scenario_n1, scenario_n10]"
    by (simp add: sorted_glob_per_run_dir list_all2_Cons1)
  with r(1) have b': "load_benchmark_data per_run_dir = Inr [scenario_n1, scenario_n10]" by simp
  show ?thesis
    using loader_sources [of scenario_dir "[scenario_n1, scenario_n10]"]
      loader_sources [of empty_dir "[]"] a b b' c
    by (simp add: sorted_glob_per_run_dir empty_dir_def)
qed

text \<open>
  Claim C3. For a record with \<open>user_cycles = 0\<close> the overhead of the CSV exporter is the
  integer \<open>0\<close>, and every data row of the written file whose user-cycles cell is \<open>0\<close> has
  \<open>0\<close> in its overhead cell. The reporter's term for such a record divides by zero: the
  average overhead raises \<^verbatim>\<open>ZeroDivisionError\<close>, and the report as a whole ends with an
  exception, on every input that holds such a record.
\<close>

theorem overhead_guarded_in_csv_unguarded_in_report:
  "(user_cycles item = 0 \<longrightarrow> csv_overhead item = Inr (CInt 0))
   \<and> (\<forall>row\<in>set (tl (csv_file (generate_csv_report data output_file))).
         row ! 1 = CInt 0 \<longrightarrow> row ! 10 = CInt 0)
   \<and> (user_cycles item = 0 \<longrightarrow> overhead_term item = Inl ZeroDivisionError)
   \<and> ((\<exists>d\<in>set data. user_cycles d = 0) \<longrightarrow>
         average_overhead data = Inl ZeroDivisionError
         \<and> (\<exists>e. snd (print_statistics data) = Some e))"
proof -
  have rows: "row ! 10 = CInt 0"
    if "row \<in> set (tl (csv_file (generate_csv_report data output_file)))" "row ! 1 = CInt 0"
    for row
  proof -
    obtain k where k:
      "list_all2 (\<lambda>item row. csv_row item = Inr row) (take k (sorted_by_participants data))
         (tl (csv_file (generate_csv_report data output_file)))"
      by (rule csv_rows_written [of data output_file])
    from that(1) obtain i where i:
      "i < length (tl (csv_file (generate_csv_report data output_file)))"
      "tl (csv_file (generate_csv_report data output_file)) ! i = row"
      by (auto simp: in_set_conv_nth)
    define item' where "item' = take k (sorted_by_participants data) ! i"
    have "csv_row item' = Inr row"
      using list_all2_nthD2 [OF k i(1)] i(2) by (simp add: item'_def)
    from csv_row_cells [OF this] that(2) have "user_cycles item' = 0" "csv_overhead item' = Inr (row ! 10)"
      by auto
    then show ?thesis using csv_overhead_zero [of item'] by simp
  qed
  show ?thesis
    using rows csv_overhead_zero [of item] overhead_term_zero [of item]
      average_overhead_fails [of data] print_statistics_fails [of data]
    by blast
qed

theorem overhead_guarded_in_csv_unguarded_in_report_witness:
  "user_cycles zero_user_record = 0
   \<and> tl (csv_file (generate_csv_report [zero_user_record] ''out.csv'')) \<noteq> []
   \<and> hd (tl (csv_file (generate_csv_report [zero_user_record] ''out.csv''))) ! 1 = CInt 0
   \<and> csv_overhead zero_user_record = Inr (CInt 0)
   \<and> hd (tl (csv_file (generate_csv_report [zero_user_record] ''out.csv''))) ! 10 = CInt 0
   \<and> overhead_term zero_user_record = Inl ZeroDivisionError
   \<and> average_overhead [zero_user_record] = Inl ZeroDivisionError
   \<and> (\<exists>e. snd (print_statistics [zero_user_record]) = Some e)"
proof -
  have contents: "tl (csv_file (generate_csv_report [zero_user_record] ''out.csv'')) =
     [[CInt 2, CInt 0, CInt 1024, CInt 1, CInt 10, CInt 20, CInt 2048, CInt 512, CFloat 0,
       CFloat 512, CInt 0, CFloat 10, CStr ''t0'']]"
    by (simp add: generate_csv_report_def sorted_by_participants_def csv_row_def csv_overhead_def
        truediv_def zero_user_record_def)
  have u: "user_cycles zero_user_record = 0" by (simp add: zero_user_record_def)
  show ?thesis
    using overhead_guarded_in_csv_unguarded_in_report
      [of zero_user_record "[zero_user_record]" "''out.csv''"] u
    by (simp add: contents)
qed

text \<open>
  Claim C4. For records whose participant count is not zero (the data model makes it
  positive), the exporter ends without an exception and the file holds the header row and
  one data row per input record. The data rows belong, in order, to the records sorted by
  participant count, a permutation of the input, and in each of them the cell
  \<^verbatim>\<open>User Cycles/Participant\<close> is the quotient of the row's user cycles by its participant
  count.
\<close>

theorem csv_round_trip:
  assumes "\<forall>d\<in>set data. participant_count d \<noteq> 0"
  shows "csv_error (generate_csv_report data f) = None
    \<and> hd (csv_file (generate_csv_report data f)) = csv_header
    \<and> length (csv_file (generate_csv_report data f)) = 1 + length data
    \<and> mset (sorted_by_participants data) = mset data
    \<and> list_all2 (\<lambda>d row. length row = 13 \<and> row ! 0 = CInt (participant_count d)
          \<and> row ! 1 = CInt (user_cycles d)
          \<and> row ! 8 = CFloat (real_of_int (user_cycles d) / real_of_int (participant_count d)))
        (sorted_by_participants data) (tl (csv_file (generate_csv_report data f)))"
proof -
  let ?r = "generate_csv_report data f"
  let ?s = "sorted_by_participants data"
  obtain k where k: "k \<le> length data"
    "list_all2 (\<lambda>item row. csv_row item = Inr row) (take k ?s) (tl (csv_file ?r))"
    "csv_file ?r = csv_header # tl (csv_file ?r)"
    "csv_error ?r = None \<longrightarrow> k = length data"
    "\<forall>e. csv_error ?r = Some e \<longrightarrow> k < length data \<and> csv_row (?s ! k) = Inl e"
    by (rule csv_rows_written [of data f]) (rule that)
  have set_s: "set ?s = set data" and len_s: "length ?s = length data"
    by (simp_all add: sorted_by_participants_def)
  have no_err: "csv_error ?r = None"
  proof (cases "csv_error ?r")
    case None
    then show ?thesis .
  next
    case (Some e)
    with k(5) have lt: "k < length data" and bad: "csv_row (?s ! k) = Inl e" by auto
    have "?s ! k \<in> set ?s" using lt len_s by simp
    then have "participant_count (?s ! k) \<noteq> 0" using set_s assms by simp
    from csv_row_ok [OF this] bad show ?thesis by simp
  qed
  then have keq: "k = length data" using k(4) by simp
  have all: "list_all2 (\<lambda>item row. csv_row item = Inr row) ?s (tl (csv_file ?r))"
    using k(2) keq len_s by simp
  have cells: "list_all2 (\<lambda>d row. length row = 13 \<and> row ! 0 = CInt (participant_count d)
          \<and> row ! 1 = CInt (user_cycles d)
          \<and> row ! 8 = CFloat (real_of_int (user_cycles d) / real_of_int (participant_count d)))
        ?s (tl (csv_file ?r))"
  proof (rule list_all2_mono [OF all])
    fix d row
    assume "csv_row d = Inr row"
    from csv_row_cells [OF this]
    show "length row = 13 \<and> row ! 0 = CInt (participant_count d)
          \<and> row ! 1 = CInt (user_cycles d)
          \<and> row ! 8 = CFloat (real_of_int (user_cycles d) / real_of_int (participant_count d))"
      by simp
  qed
  have "length (tl (csv_file ?r)) = length data"
    using all len_s by (auto dest: list_all2_lengthD)
  then have len: "length (csv_file ?r) = 1 + length data"
    using k(3) by (metis One_nat_def add.commute length_Cons plus_1_eq_Suc)
  have first_row: "hd (csv_file ?r) = csv_header"
    using k(3) by (metis list.sel(1))
  have perm: "mset ?s = mset data" by (simp add: sorted_by_participants_def)
  show ?thesis using no_err first_row len perm cells by (intro conjI)
qed

theorem csv_round_trip_witness:
  "participant_count scenario_n10 \<noteq> 0 \<and> participant_count scenario_n1 \<noteq> 0
   \<and> csv_error (generate_csv_report [scenario_n10, scenario_n1] ''out.csv'') = None
   \<and> length (csv_file (generate_csv_report [scenario_n10, scenario_n1] ''out.csv'')) = 3
   \<and> sorted_by_participants [scenario_n10, scenario_n1] = [scenario_n1, scenario_n10]
   \<and> tl (csv_file (generate_csv_report [scenario_n10, scenario_n1] ''out.csv'')) ! 1 ! 8
       = CFloat 950"
proof -
  have a: "\<forall>d\<in>set [scenario_n10, scenario_n1]. participant_count d \<noteq> 0"
    by (simp add: scenario_n1_def scenario_n10_def)
  have s: "sorted_by_participants [scenario_n10, scenario_n1] = [scenario_n1, scenario_n10]"
    by (simp add: sorted_by_participants_def scenario_n1_def scenario_n10_def)
  have v: "real_of_int (user_cycles scenario_n10) / real_of_int (participant_count scenario_n10) = 950"
    by (simp add: scenario_n10_def)
  show ?thesis
    using csv_round_trip [OF a, of "''out.csv''"] a v
    by (auto simp: s list_all2_Cons1)
qed


text \<open>
  Claim C7. A run on a results directory whose summary file holds the two records of the
  scenario ends with exit status 0. Its output has the line \<^verbatim>\<open>Participant range: 1 to 10\<close>,
  the participant ratio \<^verbatim>\<open>10.0x\<close> and the user-cycle ratio \<^verbatim>\<open>9.50x\<close>. The CSV file holds the
  header and two data rows, whose overhead cells are \<open>12/5\<close> for \<open>N = 1\<close> and \<open>6884/95\<close>
  for \<open>N = 10\<close>; printed with one and two decimals these are 2.4 and 72.46.
\<close>

theorem scenario_end_to_end:
  "exit_code (main m (only_results scenario_dir) prog [''results'']) = 0
   \<and> ''Participant range: 1 to 10''
       \<in> set (run_stdout (main m (only_results scenario_dir) prog [''results'']))
   \<and> ''Participants increased by: 10.0x (1 '' @ arrow @ '' 10)''
       \<in> set (run_stdout (main m (only_results scenario_dir) prog [''results'']))
   \<and> ''User cycles increased by:  9.50x (1,000 '' @ arrow @ '' 9,500)''
       \<in> set (run_stdout (main m (only_results scenario_dir) prog [''results'']))
   \<and> csv_written (main m (only_results scenario_dir) prog [''results'']) =
       Some (''results/detailed_analysis.csv'',
        [csv_header,
         [CInt 1, CInt 1000, CInt 1024, CInt 1, CInt 500, CInt 600, CInt 2048, CInt 512,
          CFloat 1000, CFloat 1024, CFloat (12 / 5), CFloat 600, CStr ''t1''],
         [CInt 10, CInt 9500, CInt 16384, CInt 4, CInt 4500, CInt 5000, CInt 2048, CInt 4096,
          CFloat 950, CFloat (8192 / 5), CFloat (6884 / 95), CFloat 500, CStr ''t2'']])
   \<and> format_fixed False 1 (12 / 5) = ''2.4''
   \<and> format_fixed False 2 (6884 / 95) = ''72.46''"
proof -
  let ?r = "main m (only_results scenario_dir) prog [''results'']"
  let ?data = "[scenario_n1, scenario_n10]"
  obtain lines where rep: "print_statistics ?data =
     (report_before_ratios scenario_n1 [scenario_n10]
        @ scaling_lines scenario_n1 scenario_n10 (10, 19 / 2, 16, 4, 25 / 3)
        @ [complexity_title,
           ''  User Cycles:  O(n^'' @ format_fixed False 2 (ln (19 / 2) / ln 10) @ '')'',
           ''  Total Cycles: O(n^'' @ format_fixed False 2 (ln 16 / ln 10) @ '')'',
           ''  Time:         O(n^'' @ format_fixed False 2 (ln (25 / 3) / ln 10) @ '')'',
           []]
        @ [''Efficiency Metrics:'', rule_line (CHR ''-'') 80] @ lines, None)"
    using scenario_report by (rule exE)
  have ok: "snd (print_statistics ?data) = None" by (simp add: rep)
  have csv_ok: "csv_error (generate_csv_report ?data
      (path_join (resolve_results_dir [''results'']) ''detailed_analysis.csv'')) = None"
    by (simp add: scenario_csv)
  have ne: "?data \<noteq> []" by simp
  note run = main_complete [where fs = "only_results scenario_dir" and args = "[''results'']"
      and m = m and prog = prog, OF only_results_hit scenario_load ne ok csv_ok]
  have path: "path_join (resolve_results_dir [''results'']) ''detailed_analysis.csv''
      = ''results/detailed_analysis.csv''"
    by (simp add: path_join_def resolve_results_dir_def)
  have a: "exit_code ?r = 0" by (simp add: run)
  have sub: "set (fst (print_statistics ?data)) \<subseteq> set (run_stdout ?r)"
    by (auto simp: run)
  have fst_rep: "fst (print_statistics ?data) =
      (report_banner scenario_n1 [scenario_n10] @ table_rows ?data
         @ [rule_line (CHR ''-'') 135, [], ''Scaling Analysis:'', rule_line (CHR ''-'') 80])
      @ scaling_lines scenario_n1 scenario_n10 (10, 19 / 2, 16, 4, 25 / 3)
      @ ([complexity_title,
           ''  User Cycles:  O(n^'' @ format_fixed False 2 (ln (19 / 2) / ln 10) @ '')'',
           ''  Total Cycles: O(n^'' @ format_fixed False 2 (ln 16 / ln 10) @ '')'',
           ''  Time:         O(n^'' @ format_fixed False 2 (ln (25 / 3) / ln 10) @ '')'',
           []]
        @ [''Efficiency Metrics:'', rule_line (CHR ''-'') 80] @ lines)"
    by (simp only: rep fst_conv report_before_ratios_def)
  have "report_banner scenario_n1 [scenario_n10] ! 4 \<in> set (report_banner scenario_n1 [scenario_n10])"
    by (rule nth_mem) (simp add: report_banner_length)
  then have "''Participant range: 1 to 10'' \<in> set (report_banner scenario_n1 [scenario_n10])"
    by (simp only: scenario_range_line)
  then have "''Participant range: 1 to 10'' \<in> set (fst (print_statistics ?data))"
    unfolding fst_rep by (intro in_set_front)
  with sub have b: "''Participant range: 1 to 10'' \<in> set (run_stdout ?r)" by (rule subsetD)
  have "scaling_lines scenario_n1 scenario_n10 (10, 19 / 2, 16, 4, 25 / 3) ! 0
      \<in> set (scaling_lines scenario_n1 scenario_n10 (10, 19 / 2, 16, 4, 25 / 3))"
    by (rule nth_mem) (simp add: scaling_lines_length)
  then have "''Participants increased by: 10.0x (1 '' @ arrow @ '' 10)''
      \<in> set (scaling_lines scenario_n1 scenario_n10 (10, 19 / 2, 16, 4, 25 / 3))"
    by (simp only: scenario_ratio_lines)
  then have "''Participants increased by: 10.0x (1 '' @ arrow @ '' 10)''
      \<in> set (fst (print_statistics ?data))"
    unfolding fst_rep by (rule in_set_middle)
  with sub have c: "''Participants increased by: 10.0x (1 '' @ arrow @ '' 10)'' \<in> set (run_stdout ?r)"
    by (rule subsetD)
  have "scaling_lines scenario_n1 scenario_n10 (10, 19 / 2, 16, 4, 25 / 3) ! 1
      \<in> set (scaling_lines scenario_n1 scenario_n10 (10, 19 / 2, 16, 4, 25 / 3))"
    by (rule nth_mem) (simp add: scaling_lines_length)
  then have "''User cycles increased by:  9.50x (1,000 '' @ arrow @ '' 9,500)''
      \<in> set (scaling_lines scenario_n1 scenario_n10 (10, 19 / 2, 16, 4, 25 / 3))"
    by (simp only: scenario_ratio_lines)
  then have "''User cycles increased by:  9.50x (1,000 '' @ arrow @ '' 9,500)''
      \<in> set (fst (print_statistics ?data))"
    unfolding fst_rep by (rule in_set_middle)
  with sub have d: "''User cycles increased by:  9.50x (1,000 '' @ arrow @ '' 9,500)''
      \<in> set (run_stdout ?r)"
    by (rule subsetD)
  have e: "csv_written ?r =
       Some (''results/detailed_analysis.csv'',
        [csv_header,
         [CInt 1, CInt 1000, CInt 1024, CInt 1, CInt 500, CInt 600, CInt 2048, CInt 512,
          CFloat 1000, CFloat 1024, CFloat (12 / 5), CFloat 600, CStr ''t1''],
         [CInt 10, CInt 9500, CInt 16384, CInt 4, CInt 4500, CInt 5000, CInt 2048, CInt 4096,
          CFloat 950, CFloat (8192 / 5), CFloat (6884 / 95), CFloat 500, CStr ''t2'']])"
    by (simp add: run path scenario_csv)
  show ?thesis using a b c d e format_fixed_values(3,4) by (intro conjI)
qed

text \<open>
  Claim C8. Without matplotlib the chart renderer prints two lines, the second naming
  \<^verbatim>\<open>pip install matplotlib\<close>, and writes no file. The exit status, the uncaught exception
  and the CSV file of a run are the same with and without matplotlib, and a run without it
  writes no image. When the stages before the renderer end without an exception, the run
  without matplotlib prints the two lines, then the closing banner, and ends with exit
  status 0.
\<close>

theorem missing_matplotlib_not_fatal:
  "generate_plot False data output_dir =
     \<lparr>plot_file = None,
      plot_stdout = [''Note: matplotlib not available, skipping plot generation'',
                     ''      Install with: pip install matplotlib'']\<rparr>
   \<and> exit_code (main False fs prog args) = exit_code (main True fs prog args)
   \<and> uncaught (main False fs prog args) = uncaught (main True fs prog args)
   \<and> csv_written (main False fs prog args) = csv_written (main True fs prog args)
   \<and> plot_written (main False fs prog args) = None
   \<and> (fs (resolve_results_dir args) = Some dir \<and> load_benchmark_data dir = Inr loaded
        \<and> loaded \<noteq> [] \<and> snd (print_statistics loaded) = None
        \<and> csv_error (generate_csv_report loaded
             (path_join (resolve_results_dir args) ''detailed_analysis.csv'')) = None \<longrightarrow>
        exit_code (main False fs prog args) = 0 \<and> uncaught (main False fs prog args) = None
        \<and> (\<exists>before. run_stdout (main False fs prog args) =
               before @ [''Note: matplotlib not available, skipping plot generation'',
                         ''      Install with: pip install matplotlib''] @ closing_banner))"
proof -
  note a = generate_plot_unavailable [of data output_dir]
  note same = main_before_plot [of False fs prog args True]
  from same have b: "exit_code (main False fs prog args) = exit_code (main True fs prog args)"
    by (rule conjunct1)
  from same have c: "uncaught (main False fs prog args) = uncaught (main True fs prog args)"
    by (rule conjunct1 [OF conjunct2])
  from same have d: "csv_written (main False fs prog args) = csv_written (main True fs prog args)"
    by (rule conjunct2 [OF conjunct2])
  note e = main_plot_unavailable [of fs prog args]
  have f: "fs (resolve_results_dir args) = Some dir \<and> load_benchmark_data dir = Inr loaded
        \<and> loaded \<noteq> [] \<and> snd (print_statistics loaded) = None
        \<and> csv_error (generate_csv_report loaded
             (path_join (resolve_results_dir args) ''detailed_analysis.csv'')) = None \<longrightarrow>
        exit_code (main False fs prog args) = 0 \<and> uncaught (main False fs prog args) = None
        \<and> (\<exists>before. run_stdout (main False fs prog args) =
               before @ [''Note: matplotlib not available, skipping plot generation'',
                         ''      Install with: pip install matplotlib''] @ closing_banner)"
  proof
    assume h: "fs (resolve_results_dir args) = Some dir \<and> load_benchmark_data dir = Inr loaded
        \<and> loaded \<noteq> [] \<and> snd (print_statistics loaded) = None
        \<and> csv_error (generate_csv_report loaded
             (path_join (resolve_results_dir args) ''detailed_analysis.csv'')) = None"
    show "exit_code (main False fs prog args) = 0 \<and> uncaught (main False fs prog args) = None
        \<and> (\<exists>before. run_stdout (main False fs prog args) =
               before @ [''Note: matplotlib not available, skipping plot generation'',
                         ''      Install with: pip install matplotlib''] @ closing_banner)"
      by (rule main_complete_unavailable [where fs = fs and args = args and dir = dir
            and loaded = loaded]) (simp_all only: h simp_thms)
  qed
  show ?thesis using a b c d e f by (intro conjI)
qed

theorem missing_matplotlib_not_fatal_witness:
  "only_results scenario_dir (resolve_results_dir [''results'']) = Some scenario_dir
   \<and> load_benchmark_data scenario_dir = Inr [scenario_n1, scenario_n10]
   \<and> snd (print_statistics [scenario_n1, scenario_n10]) = None
   \<and> csv_error (generate_csv_report [scenario_n1, scenario_n10]
        (path_join (resolve_results_dir [''results'']) ''detailed_analysis.csv'')) = None
   \<and> exit_code (main False (only_results scenario_dir) ''analyze_benchmarks.py'' [''results'']) = 0
   \<and> uncaught (main False (only_results scenario_dir) ''analyze_benchmarks.py'' [''results'']) = None
   \<and> plot_written (main False (only_results scenario_dir) ''analyze_benchmarks.py'' [''results''])
       = None"
proof -
  note hit = only_results_hit [of scenario_dir]
  have ok: "snd (print_statistics [scenario_n1, scenario_n10]) = None"
    using scenario_report by auto
  have csv_ok: "csv_error (generate_csv_report [scenario_n1, scenario_n10]
        (path_join (resolve_results_dir [''results'']) ''detailed_analysis.csv'')) = None"
    by (simp add: scenario_csv)
  note t = missing_matplotlib_not_fatal [where fs = "only_results scenario_dir"
      and args = "[''results'']" and dir = scenario_dir and loaded = "[scenario_n1, scenario_n10]"
      and prog = "''analyze_benchmarks.py''" and data = "[]" and output_dir = "[]"]
  from t have e: "plot_written (main False (only_results scenario_dir) ''analyze_benchmarks.py'' [''results''])
       = None"
    by (elim conjE)
  from t have "only_results scenario_dir (resolve_results_dir [''results'']) = Some scenario_dir
        \<and> load_benchmark_data scenario_dir = Inr [scenario_n1, scenario_n10]
        \<and> [scenario_n1, scenario_n10] \<noteq> []
        \<and> snd (print_statistics [scenario_n1, scenario_n10]) = None
        \<and> csv_error (generate_csv_report [scenario_n1, scenario_n10]
             (path_join (resolve_results_dir [''results'']) ''detailed_analysis.csv'')) = None \<longrightarrow>
        exit_code (main False (only_results scenario_dir) ''analyze_benchmarks.py'' [''results'']) = 0
        \<and> uncaught (main False (only_results scenario_dir) ''analyze_benchmarks.py'' [''results'']) = None
        \<and> (\<exists>before. run_stdout (main False (only_results scenario_dir) ''analyze_benchmarks.py'' [''results'']) =
               before @ [''Note: matplotlib not available, skipping plot generation'',
                         ''      Install with: pip install matplotlib''] @ closing_banner)"
    by (elim conjE)
  with hit scenario_load ok csv_ok
  have f: "exit_code (main False (only_results scenario_dir) ''analyze_benchmarks.py'' [''results'']) = 0
     \<and> uncaught (main False (only_results scenario_dir) ''analyze_benchmarks.py'' [''results'']) = None"
    by simp
  from hit scenario_load ok csv_ok e f show ?thesis by (intro conjI) simp_all
qed

text \<open>
  Claim C9. The record \<open>first\<close> the scaling comparison divides by is an input record with
  the least participant count. When its user cycles, total cycles, segments or total time
  is zero, the report ends with \<^verbatim>\<open>ZeroDivisionError\<close> right after the heading of the scaling
  analysis, before any ratio is printed.
\<close>

theorem scaling_comparison_unguarded:
  assumes "first = min_by participant_count d ds"
    and "user_cycles first = 0 \<or> total_cycles first = 0 \<or> session_segments first = 0
         \<or> total_time_ms first = 0"
  shows "first \<in> set (d # ds)
    \<and> (\<forall>y\<in>set (d # ds). participant_count first \<le> participant_count y)
    \<and> print_statistics (d # ds) = (report_before_ratios d ds, Some ZeroDivisionError)"
proof -
  have "scaling_ratios first (max_by participant_count d ds) = Inl ZeroDivisionError"
    using assms(2) by (auto simp: scaling_ratios_def truediv_def split: sum.splits)
  then have "print_statistics (d # ds) = (report_before_ratios d ds, Some ZeroDivisionError)"
    using assms(1) by (simp add: print_statistics_def Let_def)
  then show ?thesis
    using assms(1) min_by_in [of participant_count d ds] min_by_le [of _ d ds participant_count]
    by blast
qed

theorem scaling_comparison_unguarded_witness:
  "zero_user_record = min_by participant_count scenario_n10 [zero_user_record]
   \<and> user_cycles zero_user_record = 0
   \<and> zero_user_record \<in> set [scenario_n10, zero_user_record]
   \<and> print_statistics [scenario_n10, zero_user_record]
       = (report_before_ratios scenario_n10 [zero_user_record], Some ZeroDivisionError)"
proof -
  have a: "zero_user_record = min_by participant_count scenario_n10 [zero_user_record]"
    by (simp add: min_by_def zero_user_record_def scenario_n10_def)
  have b: "user_cycles zero_user_record = 0"
    by (simp add: zero_user_record_def)
  show ?thesis
    using scaling_comparison_unguarded [of zero_user_record scenario_n10 "[zero_user_record]"] a b
    by simp
qed

text \<open>
  Claim C10. When \<^verbatim>\<open>benchmark_summary.json\<close> is there and parses, the loader returns its
  contents whatever the other files of the directory are: they are not read. When the
  summary holds an empty array, the run prints \<^verbatim>\<open>Error: No benchmark data found\<close> and ends
  with exit status 1, also when per-run files that match the pattern are present.
\<close>

theorem summary_takes_precedence:
  assumes "summary_file dir = Some (Parsed records)"
  shows "load_benchmark_data dir = Inr records
    \<and> load_benchmark_data (dir\<lparr>other_files := files\<rparr>) = Inr records
    \<and> (records = [] \<and> fs (resolve_results_dir args) = Some dir \<longrightarrow>
          exit_code (main m fs prog args) = 1
          \<and> uncaught (main m fs prog args) = None
          \<and> run_stdout (main m fs prog args)
              = [''Loading benchmark data from: '' @ resolve_results_dir args,
                 ''Error: No benchmark data found'']
          \<and> csv_written (main m fs prog args) = None)"
proof -
  have a: "load_benchmark_data dir = Inr records"
    using assms by (rule load_summary)
  have "summary_file (dir\<lparr>other_files := files\<rparr>) = Some (Parsed records)"
    using assms by simp
  then have b: "load_benchmark_data (dir\<lparr>other_files := files\<rparr>) = Inr records"
    by (rule load_summary)
  have c: "records = [] \<and> fs (resolve_results_dir args) = Some dir \<longrightarrow>
          exit_code (main m fs prog args) = 1
          \<and> uncaught (main m fs prog args) = None
          \<and> run_stdout (main m fs prog args)
              = [''Loading benchmark data from: '' @ resolve_results_dir args,
                 ''Error: No benchmark data found'']
          \<and> csv_written (main m fs prog args) = None"
  proof
    assume h: "records = [] \<and> fs (resolve_results_dir args) = Some dir"
    then have h1: "fs (resolve_results_dir args) = Some dir" by simp
    from h have h2: "load_benchmark_data dir = Inr []" using a by simp
    note r = main_no_data [where fs = fs and args = args and m = m and prog = prog, OF h1 h2]
    show "exit_code (main m fs prog args) = 1
          \<and> uncaught (main m fs prog args) = None
          \<and> run_stdout (main m fs prog args)
              = [''Loading benchmark data from: '' @ resolve_results_dir args,
                 ''Error: No benchmark data found'']
          \<and> csv_written (main m fs prog args) = None"
      by (simp only: r run.select_convs simp_thms)
  qed
  show ?thesis using a b c by (intro conjI)
qed

theorem summary_takes_precedence_witness:
  "summary_file empty_summary_dir = Some (Parsed [])
   \<and> map fst (sorted_glob empty_summary_dir) = [''benchmark_N1.json'', ''benchmark_N2.json'']
   \<and> load_benchmark_data empty_summary_dir = Inr []
   \<and> only_results empty_summary_dir (resolve_results_dir [''results'']) = Some empty_summary_dir
   \<and> exit_code (main True (only_results empty_summary_dir) ''analyze_benchmarks.py'' [''results'']) = 1
   \<and> run_stdout (main True (only_results empty_summary_dir) ''analyze_benchmarks.py'' [''results''])
       = [''Loading benchmark data from: results'', ''Error: No benchmark data found'']"
proof -
  have a: "summary_file empty_summary_dir = Some (Parsed [])"
    by (simp add: empty_summary_dir_def)
  have g: "map fst (sorted_glob empty_summary_dir) = [''benchmark_N1.json'', ''benchmark_N2.json'']"
    by (simp add: sorted_glob_def empty_summary_dir_def matches_pattern_def)
  have r: "resolve_results_dir [''results''] = ''results''"
    by (simp add: resolve_results_dir_def)
  note hit = only_results_hit [of empty_summary_dir]
  note t = summary_takes_precedence [OF a, where fs = "only_results empty_summary_dir"
        and args = "[''results'']" and m = True and prog = "''analyze_benchmarks.py''"]
  from t have l: "load_benchmark_data empty_summary_dir = Inr []" by (rule conjunct1)
  from t hit have m: "exit_code (main True (only_results empty_summary_dir) ''analyze_benchmarks.py'' [''results'']) = 1
     \<and> run_stdout (main True (only_results empty_summary_dir) ''analyze_benchmarks.py'' [''results''])
       = [''Loading benchmark data from: results'', ''Error: No benchmark data found'']"
    by (simp add: r)
  show ?thesis using a g l hit m by (intro conjI) simp_all
qed

end
